theory Spec2Isabelle
  imports Complex_Main "HOL-Library.Char_ord" "HOL-Library.List_Lexorder"
begin

section \<open>Data model\<close>

text \<open>
  The prediction service of \<^verbatim>\<open>deployscript.py\<close> works on pandas data frames built from
  the JSON body of a request. A pandas \<^verbatim>\<open>Timestamp\<close> is represented by its calendar
  fields (the month of a \<^verbatim>\<open>Timestamp\<close> lies in 1..12), a cell of a frame by the kinds
  of value a JSON record or a later stage can put there (null, text, integer, float,
  timestamp; JSON booleans and nested values, which no field of the schema holds, are left
  out), and a frame by its ordered list of named columns. In pandas all columns of a frame
  have the same length; the frames built here have it by construction.
\<close>

record timestamp =
  year :: int
  month :: int
  day :: int
  hour :: int
  minute :: int
  second :: int

datatype cell =
    CNull
  | CStr string
  | CInt int
  | CNum real
  | CTime timestamp

text \<open>A JSON object as Python holds it: keys in the order of the request, each key once.\<close>

type_synonym pyrecord = "(string \<times> cell) list"

type_synonym frame = "(string \<times> cell list) list"

datatype expectation =
    ExpectColumnValuesToNotBeNull string
  | ExpectColumnValuesToBeInSet string "string list"
  | ExpectTableColumnsToMatchOrderedList "string list"

text \<open>
  Every exception of the request path is a value: the \<^verbatim>\<open>ValueError\<close> of
  \<^verbatim>\<open>validate_input_data\<close> with the number and the list of failed expectations, the
  \<^verbatim>\<open>KeyError\<close> of a column lookup, the parse error of \<^verbatim>\<open>pd.to_datetime\<close> (with the
  column it was converting), the \<^verbatim>\<open>AttributeError\<close> of \<^verbatim>\<open>.dt\<close> on a column that holds
  no timestamps, the errors of fitting the transformers, and the rejection of a matrix by
  the model (expected width, received width).
\<close>

datatype error =
    ValidationFailed nat "expectation list"
  | KeyError "string list"
  | DateParseError string
  | AttributeError
  | EmptyBatch
  | ConversionError string
  | SignatureMismatch nat nat

definition and_then :: "error + 'a \<Rightarrow> ('a \<Rightarrow> error + 'b) \<Rightarrow> error + 'b" where
  "and_then m f = (case m of Inl e \<Rightarrow> Inl e | Inr x \<Rightarrow> f x)"

section \<open>Schema and frame construction\<close>

definition columns :: "string list" where
  "columns =
    [''VendorID'', ''lpep_pickup_datetime'', ''lpep_dropoff_datetime'',
     ''store_and_fwd_flag'', ''RatecodeID'', ''PULocationID'', ''DOLocationID'',
     ''passenger_count'', ''trip_distance'', ''fare_amount'', ''extra'', ''mta_tax'',
     ''tip_amount'', ''tolls_amount'', ''ehail_fee'', ''improvement_surcharge'',
     ''total_amount'', ''payment_type'', ''trip_type'', ''congestion_surcharge'']"

definition lookup_cell :: "pyrecord \<Rightarrow> string \<Rightarrow> cell" where
  "lookup_cell r k = (case map_of r k of None \<Rightarrow> CNull | Some v \<Rightarrow> v)"

text \<open>
  \<^verbatim>\<open>pd.DataFrame(records, columns=cs)\<close> on a list of dicts: one column per name of
  \<^verbatim>\<open>cs\<close>, in that order; a key a record lacks gives a null cell; keys outside
  \<^verbatim>\<open>cs\<close> are not read.
\<close>

definition DataFrame :: "pyrecord list \<Rightarrow> string list \<Rightarrow> frame" where
  "DataFrame recs cs = map (\<lambda>c. (c, map (\<lambda>r. lookup_cell r c) recs)) cs"

definition nrows :: "frame \<Rightarrow> nat" where
  "nrows df = (case df of [] \<Rightarrow> 0 | (n, col) # rest \<Rightarrow> length col)"

text \<open>\<^verbatim>\<open>df[name] = values\<close>: replaces the column in place, or appends a new one.\<close>

definition setitem :: "frame \<Rightarrow> string \<Rightarrow> cell list \<Rightarrow> frame" where
  "setitem df name vals =
    (if name \<in> set (map fst df)
     then map (\<lambda>(n, col). if n = name then (n, vals) else (n, col)) df
     else df @ [(name, vals)])"

text \<open>\<^verbatim>\<open>df[name]\<close>: the column, or \<^verbatim>\<open>KeyError\<close>.\<close>

definition getitem :: "frame \<Rightarrow> string \<Rightarrow> error + cell list" where
  "getitem df name = (case map_of df name of None \<Rightarrow> Inl (KeyError [name]) | Some col \<Rightarrow> Inr col)"

section \<open>Validation\<close>

text \<open>
  The three kinds of expectation of the suite, as Great Expectations evaluates them on a
  pandas batch: a column has no null; the non-null values of a column belong to a set; the
  table's column names are exactly an ordered list. An expectation on a column the frame
  does not have fails.
\<close>

fun in_value_set :: "string list \<Rightarrow> cell \<Rightarrow> bool" where
  "in_value_set vs CNull = True"
| "in_value_set vs (CStr s) = (s \<in> set vs)"
| "in_value_set vs (CInt i) = False"
| "in_value_set vs (CNum x) = False"
| "in_value_set vs (CTime t) = False"

fun expectation_success :: "frame \<Rightarrow> expectation \<Rightarrow> bool" where
  "expectation_success df (ExpectColumnValuesToNotBeNull c) =
     (case map_of df c of None \<Rightarrow> False | Some col \<Rightarrow> list_all (\<lambda>v. v \<noteq> CNull) col)"
| "expectation_success df (ExpectColumnValuesToBeInSet c vs) =
     (case map_of df c of None \<Rightarrow> False | Some col \<Rightarrow> list_all (in_value_set vs) col)"
| "expectation_success df (ExpectTableColumnsToMatchOrderedList cl) = (map fst df = cl)"

definition suite :: "expectation list" where
  "suite =
     map ExpectColumnValuesToNotBeNull columns
     @ [ExpectColumnValuesToBeInSet ''store_and_fwd_flag'' [''Y'', ''N'']]
     @ [ExpectTableColumnsToMatchOrderedList columns]"

text \<open>\<^verbatim>\<open>batch.validate(suite)\<close>: one result per expectation of the suite.\<close>

definition validate :: "frame \<Rightarrow> expectation list \<Rightarrow> (expectation \<times> bool) list" where
  "validate df s = map (\<lambda>e. (e, expectation_success df e)) s"

definition validate_input_data :: "frame \<Rightarrow> error + bool" where
  "validate_input_data df =
    (let validation_results = validate df suite in
     if \<not> list_all snd validation_results
     then (let failed_expectations = filter (\<lambda>r. \<not> snd r) validation_results
           in Inl (ValidationFailed (length failed_expectations) (map fst failed_expectations)))
     else Inr True)"

section \<open>Timestamps\<close>

text \<open>
  \<^verbatim>\<open>pd.to_datetime\<close> is a library function of many formats; the pipeline is stated for
  any reading \<^verbatim>\<open>parse\<close> of a cell as a timestamp. A column converts when every cell of
  it does, and the conversion raises otherwise.
\<close>

definition to_datetime :: "(cell \<Rightarrow> timestamp option) \<Rightarrow> cell list \<Rightarrow> timestamp list option" where
  "to_datetime parse col = those (map parse col)"

text \<open>
  The loop \<^verbatim>\<open>for col in [...]: df[col] = pd.to_datetime(df[col])\<close> of \<^verbatim>\<open>predict\<close>.
\<close>

fun convert_datetime_columns ::
  "(cell \<Rightarrow> timestamp option) \<Rightarrow> string list \<Rightarrow> frame \<Rightarrow> error + frame" where
  "convert_datetime_columns parse [] df = Inr df"
| "convert_datetime_columns parse (c # cs) df =
     and_then (getitem df c) (\<lambda>col.
       case to_datetime parse col of
         None \<Rightarrow> Inl (DateParseError c)
       | Some ts \<Rightarrow> convert_datetime_columns parse cs (setitem df c (map CTime ts)))"

text \<open>
  The day of the week as pandas computes it from year, month and day (Sakamoto's method,
  turned so that Monday is 0). The table is read at the month of a \<^verbatim>\<open>Timestamp\<close>, which
  lies in 1..12.
\<close>

definition sakamoto_arr :: "int list" where
  "sakamoto_arr = [0, 3, 2, 5, 0, 3, 5, 1, 4, 6, 2, 4]"

definition dayofweek :: "timestamp \<Rightarrow> int" where
  "dayofweek t =
    (let y = (if month t < 3 then year t - 1 else year t);
         d = (y + y div 4 - y div 100 + y div 400
              + sakamoto_arr ! nat (month t - 1) + day t) mod 7
     in (d + 6) mod 7)"

text \<open>
  A concrete reading of timestamps, for the text the form of \<^verbatim>\<open>front_end.py\<close> sends
  (\<^verbatim>\<open>strftime("%Y-%m-%d %H:%M:%S")\<close>): nineteen characters, digits and separators in
  their places, the fields within the calendar's ranges.
\<close>

definition digit_of :: "char \<Rightarrow> int option" where
  "digit_of c =
     map_of [(CHR ''0'', 0), (CHR ''1'', 1), (CHR ''2'', 2), (CHR ''3'', 3), (CHR ''4'', 4),
             (CHR ''5'', 5), (CHR ''6'', 6), (CHR ''7'', 7), (CHR ''8'', 8), (CHR ''9'', 9)] c"

fun digits_value :: "int \<Rightarrow> string \<Rightarrow> int option" where
  "digits_value acc [] = Some acc"
| "digits_value acc (c # cs) =
     (case digit_of c of None \<Rightarrow> None | Some d \<Rightarrow> digits_value (10 * acc + d) cs)"

definition is_leap :: "int \<Rightarrow> bool" where
  "is_leap y = ((y mod 4 = 0 \<and> y mod 100 \<noteq> 0) \<or> y mod 400 = 0)"

definition days_in_month :: "int \<Rightarrow> int \<Rightarrow> int" where
  "days_in_month y m =
     (if m = 2 then (if is_leap y then 29 else 28)
      else if m = 4 \<or> m = 6 \<or> m = 9 \<or> m = 11 then 30 else 31)"

definition field_at :: "string \<Rightarrow> nat \<Rightarrow> nat \<Rightarrow> int option" where
  "field_at s i n = digits_value 0 (take n (drop i s))"

definition parse_iso :: "string \<Rightarrow> timestamp option" where
  "parse_iso s =
    (if length s = 19
        \<and> map (\<lambda>i. s ! i) [4, 7, 10, 13, 16] = ''-- ::''
     then
       (case (field_at s 0 4, field_at s 5 2, field_at s 8 2,
              field_at s 11 2, field_at s 14 2, field_at s 17 2) of
          (Some y, Some m, Some d, Some h, Some mi, Some se) \<Rightarrow>
            (if 1 \<le> m \<and> m \<le> 12 \<and> 1 \<le> d \<and> d \<le> days_in_month y m
                \<and> h < 24 \<and> mi < 60 \<and> se < 60
             then Some \<lparr>year = y, month = m, day = d, hour = h, minute = mi, second = se\<rparr>
             else None)
        | _ \<Rightarrow> None)
     else None)"

fun parse_cell :: "cell \<Rightarrow> timestamp option" where
  "parse_cell (CStr s) = parse_iso s"
| "parse_cell (CTime t) = Some t"
| "parse_cell CNull = None"
| "parse_cell (CInt i) = None"
| "parse_cell (CNum x) = None"

section \<open>Feature extraction\<close>

fun time_of :: "cell \<Rightarrow> timestamp option" where
  "time_of (CTime t) = Some t"
| "time_of CNull = None"
| "time_of (CStr s) = None"
| "time_of (CInt i) = None"
| "time_of (CNum x) = None"

text \<open>The \<^verbatim>\<open>.dt\<close> accessor: only a column of timestamps has one.\<close>

definition dt :: "cell list \<Rightarrow> error + timestamp list" where
  "dt col = (case those (map time_of col) of None \<Rightarrow> Inl AttributeError | Some ts \<Rightarrow> Inr ts)"

text \<open>
  One line \<^verbatim>\<open>df[name] = df['lpep_pickup_datetime'].dt.field\<close> of
  \<^verbatim>\<open>feature_extraction\<close>.
\<close>

definition assign_dt :: "string \<Rightarrow> (timestamp \<Rightarrow> int) \<Rightarrow> frame \<Rightarrow> error + frame" where
  "assign_dt name field df =
     and_then (getitem df ''lpep_pickup_datetime'') (\<lambda>col.
     and_then (dt col) (\<lambda>ts.
       Inr (setitem df name (map (\<lambda>t. CInt (field t)) ts))))"

text \<open>
  \<^verbatim>\<open>df.drop(labels, axis=1, inplace=True)\<close>: a label that is no column raises
  \<^verbatim>\<open>KeyError\<close> with the labels not found.
\<close>

definition drop_columns :: "string list \<Rightarrow> frame \<Rightarrow> error + frame" where
  "drop_columns labels df =
     (case filter (\<lambda>l. l \<notin> set (map fst df)) labels of
        [] \<Rightarrow> Inr (filter (\<lambda>(n, col). n \<notin> set labels) df)
      | m # ms \<Rightarrow> Inl (KeyError (m # ms)))"

definition dropped :: "string list" where
  "dropped = [''ehail_fee'', ''VendorID'', ''lpep_pickup_datetime'', ''lpep_dropoff_datetime'']"

definition feature_extraction :: "frame \<Rightarrow> error + frame" where
  "feature_extraction df =
     and_then (assign_dt ''pickup_year'' year df) (\<lambda>df.
     and_then (assign_dt ''pickup_month'' month df) (\<lambda>df.
     and_then (assign_dt ''pickup_dayofweek'' dayofweek df) (\<lambda>df.
     and_then (assign_dt ''pickup_day'' day df) (\<lambda>df.
     and_then (assign_dt ''pickup_hour'' hour df) (\<lambda>df.
     and_then (assign_dt ''pickup_minute'' minute df) (\<lambda>df.
     and_then (assign_dt ''pickup_second'' second df) (\<lambda>df.
       drop_columns dropped df)))))))"

section \<open>Preprocessing\<close>

definition numerical :: "string list" where
  "numerical =
    [''RatecodeID'', ''PULocationID'', ''DOLocationID'',
     ''passenger_count'', ''trip_distance'', ''fare_amount'', ''extra'', ''mta_tax'',
     ''tip_amount'', ''tolls_amount'', ''improvement_surcharge'', ''total_amount'',
     ''payment_type'', ''trip_type'', ''congestion_surcharge'',
     ''pickup_year'', ''pickup_month'', ''pickup_dayofweek'', ''pickup_day'',
     ''pickup_hour'', ''pickup_minute'', ''pickup_second'']"

definition categorical :: "string list" where
  "categorical = [''store_and_fwd_flag'']"

text \<open>\<^verbatim>\<open>df[names]\<close>: the named columns in the order asked, or \<^verbatim>\<open>KeyError\<close>.\<close>

definition select_columns :: "string list \<Rightarrow> frame \<Rightarrow> error + frame" where
  "select_columns names df =
     (case filter (\<lambda>n. n \<notin> set (map fst df)) names of
        [] \<Rightarrow> Inr (map (\<lambda>n. (n, case map_of df n of None \<Rightarrow> [] | Some col \<Rightarrow> col)) names)
      | m # ms \<Rightarrow> Inl (KeyError (m # ms)))"

text \<open>
  The transformers work on numbers and on category labels. Numbers are kept exact, as
  reals: the rounding of the 64-bit arithmetic and of \<^verbatim>\<open>astype('float32')\<close> is not
  represented. A numerical column must hold numbers and the categorical column text, which
  is what a frame that passed validation and feature extraction holds for well-typed
  requests; anything else is a conversion error here.
\<close>

fun to_float :: "cell \<Rightarrow> real option" where
  "to_float (CInt i) = Some (real_of_int i)"
| "to_float (CNum x) = Some x"
| "to_float CNull = None"
| "to_float (CStr s) = None"
| "to_float (CTime t) = None"

fun to_label :: "cell \<Rightarrow> string option" where
  "to_label (CStr s) = Some s"
| "to_label CNull = None"
| "to_label (CInt i) = None"
| "to_label (CNum x) = None"
| "to_label (CTime t) = None"

fun as_floats :: "frame \<Rightarrow> error + real list list" where
  "as_floats [] = Inr []"
| "as_floats ((n, col) # rest) =
     (case those (map to_float col) of
        None \<Rightarrow> Inl (ConversionError n)
      | Some xs \<Rightarrow> and_then (as_floats rest) (\<lambda>r. Inr (xs # r)))"

fun as_labels :: "frame \<Rightarrow> error + string list list" where
  "as_labels [] = Inr []"
| "as_labels ((n, col) # rest) =
     (case those (map to_label col) of
        None \<Rightarrow> Inl (ConversionError n)
      | Some xs \<Rightarrow> and_then (as_labels rest) (\<lambda>r. Inr (xs # r)))"

text \<open>
  \<^verbatim>\<open>StandardScaler().fit_transform\<close> on one column: the mean and the population variance
  of the column itself, a zero scale replaced by 1.
\<close>

definition scaler_mean :: "real list \<Rightarrow> real" where
  "scaler_mean xs = sum_list xs / real (length xs)"

definition scaler_var :: "real list \<Rightarrow> real" where
  "scaler_var xs = sum_list (map (\<lambda>x. (x - scaler_mean xs)\<^sup>2) xs) / real (length xs)"

definition scaler_scale :: "real list \<Rightarrow> real" where
  "scaler_scale xs = (if scaler_var xs = 0 then 1 else sqrt (scaler_var xs))"

definition StandardScaler_fit_transform :: "real list \<Rightarrow> real list" where
  "StandardScaler_fit_transform xs = map (\<lambda>x. (x - scaler_mean xs) / scaler_scale xs) xs"

text \<open>
  \<^verbatim>\<open>OneHotEncoder(sparse_output=False).fit_transform\<close> on one column: the categories are
  the sorted distinct values of the column itself, one indicator column per category.
\<close>

definition categories :: "string list \<Rightarrow> string list" where
  "categories col = sort (remdups col)"

definition OneHotEncoder_fit_transform :: "string list \<Rightarrow> real list list" where
  "OneHotEncoder_fit_transform col =
     map (\<lambda>c. map (\<lambda>v. if v = c then 1 else 0) col) (categories col)"

text \<open>Columns side by side, read as the rows of the matrix.\<close>

definition hstack :: "nat \<Rightarrow> real list list \<Rightarrow> real list list" where
  "hstack n cols = map (\<lambda>i. map (\<lambda>col. col ! i) cols) [0..<n]"

definition preprocess :: "frame \<Rightarrow> error + real list list" where
  "preprocess df =
     and_then (select_columns (numerical @ categorical) df) (\<lambda>X.
       if nrows X = 0 then Inl EmptyBatch
       else
         and_then (as_floats (filter (\<lambda>(n, col). n \<in> set numerical) X)) (\<lambda>num.
         and_then (as_labels (filter (\<lambda>(n, col). n \<in> set categorical) X)) (\<lambda>cat.
           Inr (hstack (nrows X)
                  (map StandardScaler_fit_transform num
                   @ concat (map OneHotEncoder_fit_transform cat))))))"

section \<open>Inference and the request handler\<close>

text \<open>
  Modelled from the spec: the model artifact \<^verbatim>\<open>model.pkl\<close>, which the service loads at
  start, is not among the sources. It is a fitted regressor that maps a matrix row to one
  duration, trained on a fixed input layout (width and order of the columns); a matrix of
  another width is rejected. The matrix it receives carries no column names, so only the
  width can be compared.
\<close>

record artifact =
  feature_names_in :: "string list"
  predict_row :: "real list \<Rightarrow> real"

definition n_features_in :: "artifact \<Rightarrow> nat" where
  "n_features_in a = length (feature_names_in a)"

definition model_predict :: "artifact \<Rightarrow> real list list \<Rightarrow> error + real list" where
  "model_predict a X =
     (case filter (\<lambda>row. length row \<noteq> n_features_in a) X of
        [] \<Rightarrow> Inr (map (predict_row a) X)
      | row # rows \<Rightarrow> Inl (SignatureMismatch (n_features_in a) (length row)))"

text \<open>
  The handler of \<^verbatim>\<open>/predict\<close>, on the list \<^verbatim>\<open>data["data"]\<close> of the request body.
\<close>

definition predict ::
  "(cell \<Rightarrow> timestamp option) \<Rightarrow> artifact \<Rightarrow> pyrecord list \<Rightarrow> error + real list" where
  "predict parse model data =
     (let df = DataFrame data columns in
      and_then (validate_input_data df) (\<lambda>ok.
      and_then (convert_datetime_columns parse
                  [''lpep_pickup_datetime'', ''lpep_dropoff_datetime''] df) (\<lambda>df.
      and_then (feature_extraction df) (\<lambda>df.
      and_then (preprocess df) (\<lambda>X_processed.
        model_predict model X_processed)))))"

text \<open>
  The meaning of the columns of the processed matrix, in order: the numerical columns,
  then one indicator per category found in the batch.
\<close>

definition feature_names_out :: "frame \<Rightarrow> string list" where
  "feature_names_out df =
     numerical
     @ concat (map (\<lambda>n. case map_of df n of
                           None \<Rightarrow> []
                         | Some col \<Rightarrow> map (\<lambda>c. n @ ''_'' @ c) (categories (map (\<lambda>v. case v of CStr s \<Rightarrow> s | _ \<Rightarrow> []) col)))
                   categorical)"

text \<open>
  The stages of \<^verbatim>\<open>predict\<close> before inference, named so that properties of the frame
  handed to the feature deriver and of the matrix handed to the model can be stated.
\<close>

definition derived :: "(cell \<Rightarrow> timestamp option) \<Rightarrow> pyrecord list \<Rightarrow> error + frame" where
  "derived parse data =
     (let df = DataFrame data columns in
      and_then (validate_input_data df) (\<lambda>ok.
      and_then (convert_datetime_columns parse
                  [''lpep_pickup_datetime'', ''lpep_dropoff_datetime''] df) (\<lambda>df.
        feature_extraction df)))"

definition processed :: "(cell \<Rightarrow> timestamp option) \<Rightarrow> pyrecord list \<Rightarrow> error + real list list" where
  "processed parse data = and_then (derived parse data) preprocess"

section \<open>Example requests\<close>

text \<open>A record as the form of \<^verbatim>\<open>front_end.py\<close> builds it, and variations of it.\<close>

definition example_record :: pyrecord where
  "example_record =
    [(''VendorID'', CInt 1), (''lpep_pickup_datetime'', CStr ''2024-03-11 14:05:09''),
     (''lpep_dropoff_datetime'', CStr ''2024-03-11 14:25:00''),
     (''store_and_fwd_flag'', CStr ''N''),
     (''RatecodeID'', CInt 1), (''PULocationID'', CInt 74), (''DOLocationID'', CInt 168),
     (''passenger_count'', CInt 1), (''trip_distance'', CNum 2.5), (''fare_amount'', CNum 6),
     (''extra'', CNum 0.5), (''mta_tax'', CNum 0.5), (''tip_amount'', CNum 0),
     (''tolls_amount'', CNum 0), (''ehail_fee'', CNum 0), (''improvement_surcharge'', CNum 0.3),
     (''total_amount'', CNum 7.3), (''payment_type'', CInt 1), (''trip_type'', CInt 1),
     (''congestion_surcharge'', CNum 0)]"

definition other_record :: pyrecord where
  "other_record =
    [(''VendorID'', CInt 2), (''lpep_pickup_datetime'', CStr ''2023-12-31 23:59:58''),
     (''lpep_dropoff_datetime'', CStr ''2024-01-01 00:40:00''),
     (''store_and_fwd_flag'', CStr ''Y''),
     (''RatecodeID'', CInt 5), (''PULocationID'', CInt 12), (''DOLocationID'', CInt 261),
     (''passenger_count'', CInt 4), (''trip_distance'', CNum 18.5), (''fare_amount'', CNum 52),
     (''extra'', CNum 1), (''mta_tax'', CNum 1.5), (''tip_amount'', CNum 10),
     (''tolls_amount'', CNum 6.5), (''ehail_fee'', CNum 1), (''improvement_surcharge'', CNum 1.3),
     (''total_amount'', CNum 73.8), (''payment_type'', CInt 2), (''trip_type'', CInt 2),
     (''congestion_surcharge'', CNum 2.5)]"

definition with_field :: "string \<Rightarrow> cell \<Rightarrow> pyrecord \<Rightarrow> pyrecord" where
  "with_field k v r = map (\<lambda>(k', v'). if k' = k then (k', v) else (k', v')) r"

definition artifact_N :: artifact where
  "artifact_N =
     \<lparr>feature_names_in = numerical @ [''store_and_fwd_flag_N''], predict_row = sum_list\<rparr>"

definition artifact_NY :: artifact where
  "artifact_NY =
     \<lparr>feature_names_in = numerical @ [''store_and_fwd_flag_N'', ''store_and_fwd_flag_Y''],
      predict_row = sum_list\<rparr>"

definition invalid_record :: pyrecord where
  "invalid_record =
     with_field ''VendorID'' CNull (with_field ''store_and_fwd_flag'' (CStr ''X'') example_record)"


definition incomplete_record :: pyrecord where
  "incomplete_record = (''comment'', CStr ''airport run'') # tl example_record"


text \<open>The seven columns \<^verbatim>\<open>feature_extraction\<close> computes from the pickup timestamps.\<close>

definition new_columns :: "timestamp list \<Rightarrow> frame" where
  "new_columns ts =
     [(''pickup_year'', map (\<lambda>t. CInt (year t)) ts),
      (''pickup_month'', map (\<lambda>t. CInt (month t)) ts),
      (''pickup_dayofweek'', map (\<lambda>t. CInt (dayofweek t)) ts),
      (''pickup_day'', map (\<lambda>t. CInt (day t)) ts),
      (''pickup_hour'', map (\<lambda>t. CInt (hour t)) ts),
      (''pickup_minute'', map (\<lambda>t. CInt (minute t)) ts),
      (''pickup_second'', map (\<lambda>t. CInt (second t)) ts)]"


text \<open>The cells of the two timestamp columns of a request.\<close>

definition pickup_cells :: "pyrecord list \<Rightarrow> cell list" where
  "pickup_cells data = map (\<lambda>r. lookup_cell r ''lpep_pickup_datetime'') data"

definition dropoff_cells :: "pyrecord list \<Rightarrow> cell list" where
  "dropoff_cells data = map (\<lambda>r. lookup_cell r ''lpep_dropoff_datetime'') data"


text \<open>The number and the label a cell stands for in the transformers.\<close>

definition float_value :: "cell \<Rightarrow> real" where
  "float_value v = (case to_float v of None \<Rightarrow> 0 | Some x \<Rightarrow> x)"

definition label_value :: "cell \<Rightarrow> string" where
  "label_value v = (case to_label v of None \<Rightarrow> [] | Some s \<Rightarrow> s)"

text \<open>The frame that feature extraction returns for a request, and its columns by name.\<close>

definition derived_frame :: "pyrecord list \<Rightarrow> timestamp list \<Rightarrow> frame" where
  "derived_frame data pts =
     filter (\<lambda>(n, col). n \<notin> set dropped) (DataFrame data columns) @ new_columns pts"

definition derived_column :: "pyrecord list \<Rightarrow> timestamp list \<Rightarrow> string \<Rightarrow> cell list" where
  "derived_column data pts n =
     (case map_of (derived_frame data pts) n of None \<Rightarrow> [] | Some col \<Rightarrow> col)"

text \<open>The columns of the processed matrix of a request: scaled numerical columns, then indicators.\<close>

definition processed_columns :: "pyrecord list \<Rightarrow> timestamp list \<Rightarrow> real list list" where
  "processed_columns data pts =
     map (\<lambda>n. StandardScaler_fit_transform (map float_value (derived_column data pts n))) numerical
     @ OneHotEncoder_fit_transform
         (map (\<lambda>r. label_value (lookup_cell r ''store_and_fwd_flag'')) data)"

definition flag_Y_record :: pyrecord where
  "flag_Y_record = with_field ''store_and_fwd_flag'' (CStr ''Y'') example_record"


definition example_pickup :: timestamp where
  "example_pickup = \<lparr>year = 2024, month = 3, day = 11, hour = 14, minute = 5, second = 9\<rparr>"

definition example_dropoff :: timestamp where
  "example_dropoff = \<lparr>year = 2024, month = 3, day = 11, hour = 14, minute = 25, second = 0\<rparr>"

definition other_pickup :: timestamp where
  "other_pickup = \<lparr>year = 2023, month = 12, day = 31, hour = 23, minute = 59, second = 58\<rparr>"

definition other_dropoff :: timestamp where
  "other_dropoff = \<lparr>year = 2024, month = 1, day = 1, hour = 0, minute = 40, second = 0\<rparr>"

section \<open>Basic facts\<close>

lemma and_then_Inl [simp]: "and_then (Inl e) f = Inl e"
  by (simp add: and_then_def)

lemma and_then_Inr [simp]: "and_then (Inr x) f = f x"
  by (simp add: and_then_def)

lemma map_fst_DataFrame [simp]: "map fst (DataFrame recs cs) = cs"
  by (simp add: DataFrame_def o_def)

lemma map_of_DataFrame:
  "map_of (DataFrame recs cs) c =
     (if c \<in> set cs then Some (map (\<lambda>r. lookup_cell r c) recs) else None)"
  by (induction cs) (auto simp: DataFrame_def)

lemma validate_input_data_eq:
  "validate_input_data df =
     (if filter (\<lambda>e. \<not> expectation_success df e) suite = [] then Inr True
      else Inl (ValidationFailed (length (filter (\<lambda>e. \<not> expectation_success df e) suite))
                 (filter (\<lambda>e. \<not> expectation_success df e) suite)))"
  by (simp add: validate_input_data_def validate_def Let_def filter_map o_def
      list_all_iff filter_empty_conv)

lemma list_all_filter_empty: "list_all P xs \<longleftrightarrow> filter (\<lambda>x. \<not> P x) xs = []"
  by (simp add: list_all_iff filter_empty_conv)

lemma predict_validation_error:
  "validate_input_data (DataFrame data columns) = Inl err \<Longrightarrow> predict parse model data = Inl err"
  by (simp add: predict_def Let_def)

lemma predict_eq_processed:
  "predict parse model data = and_then (processed parse data) (model_predict model)"
  by (simp add: predict_def processed_def derived_def Let_def and_then_def split: sum.splits)

lemma map_of_filter_keys:
  "map_of (filter (\<lambda>(k, v). k \<in> S) r) c = (if c \<in> S then map_of r c else None)"
  by (induction r) auto

lemma lookup_cell_filter_keys:
  "c \<in> S \<Longrightarrow> lookup_cell (filter (\<lambda>(k, v). k \<in> S) r) c = lookup_cell r c"
  by (simp add: lookup_cell_def map_of_filter_keys)

lemma DataFrame_filter_keys:
  "DataFrame (map (filter (\<lambda>(k, v). k \<in> set cs)) data) cs = DataFrame data cs"
  by (simp add: DataFrame_def o_def lookup_cell_filter_keys)

lemma DataFrame_same_mappings:
  "list_all2 (\<lambda>r r'. map_of r' = map_of r) data data' \<Longrightarrow> DataFrame data' cs = DataFrame data cs"
proof -
  assume h: "list_all2 (\<lambda>r r'. map_of r' = map_of r) data data'"
  have "map (\<lambda>r. lookup_cell r c) data' = map (\<lambda>r. lookup_cell r c) data" for c
    using h by (induction rule: list_all2_induct) (simp_all add: lookup_cell_def)
  then show ?thesis by (simp add: DataFrame_def)
qed

lemma missing_key_null:
  assumes "c \<in> set columns" "r \<in> set data" "map_of r c = None"
  shows "\<not> expectation_success (DataFrame data columns) (ExpectColumnValuesToNotBeNull c)"
proof -
  have "lookup_cell r c = CNull" using assms(3) by (simp add: lookup_cell_def)
  then have "\<exists>v \<in> set data. lookup_cell v c = CNull" using assms(2) by blast
  then show ?thesis using assms(1) by (simp add: map_of_DataFrame list_all_iff)
qed

lemma map_of_rev_distinct: "distinct (map fst xs) \<Longrightarrow> map_of (rev xs) = map_of xs"
  by (subst map_of_inject_set) (simp_all add: rev_map [symmetric])


subsection \<open>Columns of a frame\<close>

lemma setitem_new: "name \<notin> set (map fst df) \<Longrightarrow> setitem df name vals = df @ [(name, vals)]"
  by (simp add: setitem_def)

lemma map_fst_setitem_old:
  "name \<in> set (map fst df) \<Longrightarrow> map fst (setitem df name vals) = map fst df"
  by (induction df) (auto simp: setitem_def)

lemma map_of_replace:
  "map_of (map (\<lambda>(n, col). if n = name then (n, vals) else (n, col)) df) k
     = (if k = name then (if name \<in> set (map fst df) then Some vals else None) else map_of df k)"
  by (induction df) force+

lemma map_of_setitem_old:
  "name \<in> set (map fst df) \<Longrightarrow>
     map_of (setitem df name vals) k = (if k = name then Some vals else map_of df k)"
  by (simp add: setitem_def map_of_replace del: set_map)

lemma map_of_filter_not_in:
  "map_of (filter (\<lambda>(n, col). n \<notin> S) df) k = (if k \<in> S then None else map_of df k)"
  by (induction df) auto

lemma those_map_Some [simp]: "those (map Some xs) = Some xs"
  by (induction xs) simp_all

lemma those_eq_Some_iff: "those xs = Some ys \<longleftrightarrow> xs = map Some ys"
proof (induction xs arbitrary: ys)
  case Nil
  then show ?case by auto
next
  case (Cons x xs)
  then show ?case by (cases x; cases ys) (auto split: option.splits)
qed


lemma those_time_of_CTime [simp]: "those (map (time_of \<circ> CTime) ts) = Some ts"
  by (induction ts) simp_all

lemma convert_two_columns:
  assumes cols: "map fst df = columns"
  shows "convert_datetime_columns parse [''lpep_pickup_datetime'', ''lpep_dropoff_datetime''] df =
    (case map_of df ''lpep_pickup_datetime'' of
       None \<Rightarrow> Inl (KeyError [''lpep_pickup_datetime''])
     | Some pc \<Rightarrow>
        (case those (map parse pc) of
           None \<Rightarrow> Inl (DateParseError ''lpep_pickup_datetime'')
         | Some pts \<Rightarrow>
            (case map_of df ''lpep_dropoff_datetime'' of
               None \<Rightarrow> Inl (KeyError [''lpep_dropoff_datetime''])
             | Some dc \<Rightarrow>
                (case those (map parse dc) of
                   None \<Rightarrow> Inl (DateParseError ''lpep_dropoff_datetime'')
                 | Some dts \<Rightarrow>
                     Inr (setitem (setitem df ''lpep_pickup_datetime'' (map CTime pts))
                            ''lpep_dropoff_datetime'' (map CTime dts))))))"
proof -
  have p: "''lpep_pickup_datetime'' \<in> set (map fst df)" by (simp add: cols columns_def)
  show ?thesis
    by (simp add: getitem_def to_datetime_def map_of_setitem_old [OF p]
        split: option.splits)
qed

lemma assign_dt_new:
  assumes "name \<notin> set (map fst df)"
    and "map_of df ''lpep_pickup_datetime'' = Some (map CTime ts)"
  shows "assign_dt name f df = Inr (df @ [(name, map (\<lambda>t. CInt (f t)) ts)])"
  using assms by (simp add: assign_dt_def getitem_def dt_def setitem_new)

lemma feature_extraction_schema:
  assumes cols: "map fst df = columns"
    and pick: "map_of df ''lpep_pickup_datetime'' = Some (map CTime ts)"
  shows "feature_extraction df =
           Inr (filter (\<lambda>(n, col). n \<notin> set dropped) df @ new_columns ts)"
proof -
  let ?d1 = "df @ [(''pickup_year'', map (\<lambda>t. CInt (year t)) ts)]"
  let ?d2 = "?d1 @ [(''pickup_month'', map (\<lambda>t. CInt (month t)) ts)]"
  let ?d3 = "?d2 @ [(''pickup_dayofweek'', map (\<lambda>t. CInt (dayofweek t)) ts)]"
  let ?d4 = "?d3 @ [(''pickup_day'', map (\<lambda>t. CInt (day t)) ts)]"
  let ?d5 = "?d4 @ [(''pickup_hour'', map (\<lambda>t. CInt (hour t)) ts)]"
  let ?d6 = "?d5 @ [(''pickup_minute'', map (\<lambda>t. CInt (minute t)) ts)]"
  let ?d7 = "?d6 @ [(''pickup_second'', map (\<lambda>t. CInt (second t)) ts)]"
  have s1: "assign_dt ''pickup_year'' year df = Inr ?d1"
    by (rule assign_dt_new) (simp_all add: cols pick columns_def)
  have s2: "assign_dt ''pickup_month'' month ?d1 = Inr ?d2"
    by (rule assign_dt_new) (simp_all add: cols pick columns_def)
  have s3: "assign_dt ''pickup_dayofweek'' dayofweek ?d2 = Inr ?d3"
    by (rule assign_dt_new) (simp_all add: cols pick columns_def)
  have s4: "assign_dt ''pickup_day'' day ?d3 = Inr ?d4"
    by (rule assign_dt_new) (simp_all add: cols pick columns_def)
  have s5: "assign_dt ''pickup_hour'' hour ?d4 = Inr ?d5"
    by (rule assign_dt_new) (simp_all add: cols pick columns_def)
  have s6: "assign_dt ''pickup_minute'' minute ?d5 = Inr ?d6"
    by (rule assign_dt_new) (simp_all add: cols pick columns_def)
  have s7: "assign_dt ''pickup_second'' second ?d6 = Inr ?d7"
    by (rule assign_dt_new) (simp_all add: cols pick columns_def)
  have present: "filter (\<lambda>l. l \<notin> set (map fst ?d7)) dropped = []"
    by (simp add: cols columns_def dropped_def)
  have kept: "filter (\<lambda>(n, col). n \<notin> set dropped) ?d7
                = filter (\<lambda>(n, col). n \<notin> set dropped) df @ new_columns ts"
    by (simp add: dropped_def new_columns_def)
  have "drop_columns dropped ?d7 = Inr (filter (\<lambda>(n, col). n \<notin> set dropped) df @ new_columns ts)"
    unfolding drop_columns_def present kept [symmetric] by simp
  then show ?thesis
    unfolding feature_extraction_def s1 and_then_Inr s2 s3 s4 s5 s6 s7 .
qed


lemma example_record_valid: "validate_input_data (DataFrame [example_record] columns) = Inr True"
  by (simp add: validate_input_data_eq suite_def columns_def DataFrame_def lookup_cell_def
      example_record_def)

subsection \<open>The frame after conversion and feature extraction\<close>

lemma filter_replace_dropped:
  "name \<in> S \<Longrightarrow>
     filter (\<lambda>(n, col). n \<notin> S) (map (\<lambda>(n, col). if n = name then (n, vals) else (n, col)) df)
       = filter (\<lambda>(n, col). n \<notin> S) df"
  by (induction df) (auto split: if_splits)

lemma filter_setitem_dropped:
  "name \<in> S \<Longrightarrow> name \<in> set (map fst df) \<Longrightarrow>
     filter (\<lambda>(n, col). n \<notin> S) (setitem df name vals) = filter (\<lambda>(n, col). n \<notin> S) df"
  by (simp add: setitem_def filter_replace_dropped del: set_map)

lemma convert_DataFrame:
  "convert_datetime_columns parse [''lpep_pickup_datetime'', ''lpep_dropoff_datetime'']
       (DataFrame data columns) =
    (case those (map parse (pickup_cells data)) of
       None \<Rightarrow> Inl (DateParseError ''lpep_pickup_datetime'')
     | Some pts \<Rightarrow>
        (case those (map parse (dropoff_cells data)) of
           None \<Rightarrow> Inl (DateParseError ''lpep_dropoff_datetime'')
         | Some dts \<Rightarrow>
             Inr (setitem (setitem (DataFrame data columns) ''lpep_pickup_datetime'' (map CTime pts))
                    ''lpep_dropoff_datetime'' (map CTime dts))))"
proof -
  have p: "map_of (DataFrame data columns) ''lpep_pickup_datetime'' = Some (pickup_cells data)"
    by (simp add: map_of_DataFrame pickup_cells_def columns_def)
  have d: "map_of (DataFrame data columns) ''lpep_dropoff_datetime'' = Some (dropoff_cells data)"
    by (simp add: map_of_DataFrame dropoff_cells_def columns_def)
  show ?thesis
    by (subst convert_two_columns) (simp_all add: p d split: option.splits)
qed

lemma feature_extraction_converted:
  "feature_extraction
     (setitem (setitem (DataFrame data columns) ''lpep_pickup_datetime'' (map CTime pts))
        ''lpep_dropoff_datetime'' (map CTime dts))
   = Inr (filter (\<lambda>(n, col). n \<notin> set dropped) (DataFrame data columns) @ new_columns pts)"
proof -
  let ?df = "DataFrame data columns"
  let ?d1 = "setitem ?df ''lpep_pickup_datetime'' (map CTime pts)"
  let ?d2 = "setitem ?d1 ''lpep_dropoff_datetime'' (map CTime dts)"
  have p: "''lpep_pickup_datetime'' \<in> set (map fst ?df)" by (simp add: columns_def)
  have c1: "map fst ?d1 = columns" by (simp add: map_fst_setitem_old [OF p])
  have d: "''lpep_dropoff_datetime'' \<in> set (map fst ?d1)" unfolding c1 by (simp add: columns_def)
  have c2: "map fst ?d2 = columns" by (simp add: map_fst_setitem_old [OF d] c1)
  have m: "map_of ?d2 ''lpep_pickup_datetime'' = Some (map CTime pts)"
    by (simp add: map_of_setitem_old [OF d] map_of_setitem_old [OF p])
  have f1: "filter (\<lambda>(n, col). n \<notin> set dropped) ?d1 = filter (\<lambda>(n, col). n \<notin> set dropped) ?df"
    by (rule filter_setitem_dropped [OF _ p]) (simp add: dropped_def)
  have f2: "filter (\<lambda>(n, col). n \<notin> set dropped) ?d2 = filter (\<lambda>(n, col). n \<notin> set dropped) ?d1"
    by (rule filter_setitem_dropped [OF _ d]) (simp add: dropped_def)
  show ?thesis
    using feature_extraction_schema [OF c2 m] by (simp add: f1 f2)
qed

lemma derived_eq:
  "derived parse data =
     (case validate_input_data (DataFrame data columns) of
        Inl e \<Rightarrow> Inl e
      | Inr ok \<Rightarrow>
         (case those (map parse (pickup_cells data)) of
            None \<Rightarrow> Inl (DateParseError ''lpep_pickup_datetime'')
          | Some pts \<Rightarrow>
             (case those (map parse (dropoff_cells data)) of
                None \<Rightarrow> Inl (DateParseError ''lpep_dropoff_datetime'')
              | Some dts \<Rightarrow>
                  Inr (filter (\<lambda>(n, col). n \<notin> set dropped) (DataFrame data columns)
                       @ new_columns pts))))"
  unfolding derived_def Let_def convert_DataFrame
  by (simp add: feature_extraction_converted split: sum.splits option.splits)




subsection \<open>Preprocessing of a request\<close>

lemma to_float_float_value: "to_float v \<noteq> None \<Longrightarrow> to_float v = Some (float_value v)"
  by (cases "to_float v") (simp_all add: float_value_def)

lemma to_label_label_value: "to_label v \<noteq> None \<Longrightarrow> to_label v = Some (label_value v)"
  by (cases "to_label v") (simp_all add: label_value_def)

lemma as_floats_ok:
  "(\<And>n col v. (n, col) \<in> set X \<Longrightarrow> v \<in> set col \<Longrightarrow> to_float v \<noteq> None) \<Longrightarrow>
     as_floats X = Inr (map (\<lambda>(n, col). map float_value col) X)"
proof (induction X)
  case Nil
  then show ?case by simp
next
  case (Cons a X)
  obtain n col where a: "a = (n, col)" by (cases a)
  have "\<And>v. v \<in> set col \<Longrightarrow> to_float v \<noteq> None" using Cons.prems a by auto
  then have "map to_float col = map Some (map float_value col)"
    by (simp add: to_float_float_value)
  then have t: "those (map to_float col) = Some (map float_value col)"
    by (simp only: those_map_Some)
  have "as_floats X = Inr (map (\<lambda>(n, col). map float_value col) X)"
    using Cons.prems by (intro Cons.IH) auto
  then show ?case by (simp add: a t)
qed

lemma as_labels_ok:
  "(\<And>n col v. (n, col) \<in> set X \<Longrightarrow> v \<in> set col \<Longrightarrow> to_label v \<noteq> None) \<Longrightarrow>
     as_labels X = Inr (map (\<lambda>(n, col). map label_value col) X)"
proof (induction X)
  case Nil
  then show ?case by simp
next
  case (Cons a X)
  obtain n col where a: "a = (n, col)" by (cases a)
  have "\<And>v. v \<in> set col \<Longrightarrow> to_label v \<noteq> None" using Cons.prems a by auto
  then have "map to_label col = map Some (map label_value col)"
    by (simp add: to_label_label_value)
  then have t: "those (map to_label col) = Some (map label_value col)"
    by (simp only: those_map_Some)
  have "as_labels X = Inr (map (\<lambda>(n, col). map label_value col) X)"
    using Cons.prems by (intro Cons.IH) auto
  then show ?case by (simp add: a t)
qed

lemma map_fst_filter_names:
  "map fst (filter (\<lambda>(n, col). P n) df) = filter P (map fst df)"
  by (induction df) auto

lemma map_fst_derived_frame:
  "map fst (derived_frame data pts) =
     [''store_and_fwd_flag'', ''RatecodeID'', ''PULocationID'', ''DOLocationID'',
      ''passenger_count'', ''trip_distance'', ''fare_amount'', ''extra'', ''mta_tax'',
      ''tip_amount'', ''tolls_amount'', ''improvement_surcharge'',
      ''total_amount'', ''payment_type'', ''trip_type'', ''congestion_surcharge'',
      ''pickup_year'', ''pickup_month'', ''pickup_dayofweek'', ''pickup_day'',
      ''pickup_hour'', ''pickup_minute'', ''pickup_second'']"
  unfolding derived_frame_def map_append map_fst_filter_names map_fst_DataFrame
  by (simp add: columns_def dropped_def new_columns_def)

lemma map_of_derived_frame:
  "map_of (derived_frame data pts) n =
     (if n \<in> set columns \<and> n \<notin> set dropped then Some (map (\<lambda>r. lookup_cell r n) data)
      else map_of (new_columns pts) n)"
proof -
  have new: "map_of (new_columns pts) n = None" if "n \<in> set columns"
    using that by (auto simp: new_columns_def columns_def)
  show ?thesis
    unfolding derived_frame_def map_of_append map_add_def map_of_filter_not_in map_of_DataFrame
    by (simp add: new split: option.splits)
qed

lemma new_columns_integers:
  "map_of (new_columns pts) n = Some col \<Longrightarrow>
     length col = length pts \<and> (\<forall>v \<in> set col. \<exists>i. v = CInt i)"
  by (auto simp: new_columns_def split: if_splits)

lemma derived_column_length:
  "length pts = length data \<Longrightarrow> n \<in> set (map fst (derived_frame data pts)) \<Longrightarrow>
     length (derived_column data pts n) = length data"
proof -
  assume l: "length pts = length data" and n: "n \<in> set (map fst (derived_frame data pts))"
  from n obtain col where c: "map_of (derived_frame data pts) n = Some col"
    by (metis map_of_eq_None_iff not_None_eq set_map)
  show ?thesis
  proof (cases "n \<in> set columns \<and> n \<notin> set dropped")
    case True
    then show ?thesis by (simp add: derived_column_def map_of_derived_frame)
  next
    case False
    then have "map_of (new_columns pts) n = Some col"
      using c unfolding map_of_derived_frame by (auto split: if_splits)
    from new_columns_integers [OF this] show ?thesis
      using c l by (simp add: derived_column_def)
  qed
qed

lemma derived_column_numeric:
  assumes num: "\<forall>r \<in> set data. \<forall>c \<in> set numerical. c \<in> set columns \<longrightarrow> to_float (lookup_cell r c) \<noteq> None"
    and n: "n \<in> set numerical" and v: "v \<in> set (derived_column data pts n)"
  shows "to_float v \<noteq> None"
proof (cases "n \<in> set columns \<and> n \<notin> set dropped")
  case True
  then have "derived_column data pts n = map (\<lambda>r. lookup_cell r n) data"
    by (simp add: derived_column_def map_of_derived_frame)
  with v obtain r where "r \<in> set data" "v = lookup_cell r n" by auto
  with num n True show ?thesis by blast
next
  case False
  show ?thesis
  proof (cases "map_of (new_columns pts) n")
    case None
    with False have "derived_column data pts n = []"
      unfolding derived_column_def map_of_derived_frame by (auto split: if_splits)
    with v show ?thesis by simp
  next
    case (Some col)
    with False have "derived_column data pts n = col"
      unfolding derived_column_def map_of_derived_frame by (auto split: if_splits)
    with v new_columns_integers [OF Some] obtain i where "v = CInt i" by blast
    then show ?thesis by simp
  qed
qed

lemma valid_all_expectations:
  "validate_input_data df = Inr True \<Longrightarrow> e \<in> set suite \<Longrightarrow> expectation_success df e"
  by (auto simp: validate_input_data_eq filter_empty_conv split: if_splits)

lemma valid_flag:
  assumes v: "validate_input_data (DataFrame data columns) = Inr True" and r: "r \<in> set data"
  shows "lookup_cell r ''store_and_fwd_flag'' = CStr ''Y''
         \<or> lookup_cell r ''store_and_fwd_flag'' = CStr ''N''"
proof -
  let ?c = "lookup_cell r ''store_and_fwd_flag''"
  have m: "map_of (DataFrame data columns) ''store_and_fwd_flag''
             = Some (map (\<lambda>r. lookup_cell r ''store_and_fwd_flag'') data)"
    by (simp add: map_of_DataFrame columns_def)
  have "expectation_success (DataFrame data columns)
          (ExpectColumnValuesToBeInSet ''store_and_fwd_flag'' [''Y'', ''N''])"
    by (rule valid_all_expectations [OF v]) (simp add: suite_def)
  then have a: "in_value_set [''Y'', ''N''] ?c"
    using r by (simp add: m list_all_iff)
  have "expectation_success (DataFrame data columns)
          (ExpectColumnValuesToNotBeNull ''store_and_fwd_flag'')"
    by (rule valid_all_expectations [OF v]) (simp add: suite_def columns_def)
  then have b: "?c \<noteq> CNull"
    using r by (simp add: m list_all_iff)
  from a b show ?thesis by (cases ?c) auto
qed

lemma preprocess_derived_frame:
  assumes l: "length pts = length data" and ne: "data \<noteq> []"
    and num: "\<forall>r \<in> set data. \<forall>c \<in> set numerical. c \<in> set columns \<longrightarrow> to_float (lookup_cell r c) \<noteq> None"
    and lab: "\<forall>r \<in> set data. to_label (lookup_cell r ''store_and_fwd_flag'') \<noteq> None"
  shows "preprocess (derived_frame data pts) = Inr (hstack (length data) (processed_columns data pts))"
proof -
  let ?D = "derived_frame data pts"
  let ?g = "derived_column data pts"
  let ?X = "map (\<lambda>n. (n, ?g n)) (numerical @ categorical)"
  have present: "filter (\<lambda>n. n \<notin> set (map fst ?D)) (numerical @ categorical) = []"
    unfolding map_fst_derived_frame by (simp add: numerical_def categorical_def)
  have sel: "select_columns (numerical @ categorical) ?D = Inr ?X"
    unfolding select_columns_def present derived_column_def by simp
  have "''RatecodeID'' \<in> set (map fst ?D)"
    unfolding map_fst_derived_frame by simp
  then have "length (?g ''RatecodeID'') = length data"
    by (rule derived_column_length [OF l])
  then have rows: "nrows ?X = length data"
    by (simp add: nrows_def numerical_def)
  have n1: "filter (\<lambda>n. n \<in> set numerical) categorical = []"
    by (simp add: numerical_def categorical_def)
  have n2: "filter (\<lambda>n. n \<in> set categorical) numerical = []"
    by (simp add: numerical_def categorical_def)
  have fnum: "filter (\<lambda>(n, col). n \<in> set numerical) ?X = map (\<lambda>n. (n, ?g n)) numerical"
    by (simp add: filter_map o_def n1)
  have fcat: "filter (\<lambda>(n, col). n \<in> set categorical) ?X = map (\<lambda>n. (n, ?g n)) categorical"
    by (simp add: filter_map o_def n2)
  have flag: "?g ''store_and_fwd_flag'' = map (\<lambda>r. lookup_cell r ''store_and_fwd_flag'') data"
    by (simp add: derived_column_def map_of_derived_frame columns_def dropped_def)
  have fl: "as_floats (map (\<lambda>n. (n, ?g n)) numerical)
              = Inr (map (\<lambda>(n, col). map float_value col) (map (\<lambda>n. (n, ?g n)) numerical))"
    by (rule as_floats_ok) (use derived_column_numeric [OF num] in auto)
  have la: "as_labels (map (\<lambda>n. (n, ?g n)) categorical)
              = Inr (map (\<lambda>(n, col). map label_value col) (map (\<lambda>n. (n, ?g n)) categorical))"
    by (rule as_labels_ok) (use lab in \<open>auto simp: categorical_def flag\<close>)
  have cols: "map StandardScaler_fit_transform
                (map (\<lambda>(n, col). map float_value col) (map (\<lambda>n. (n, ?g n)) numerical))
              @ concat (map OneHotEncoder_fit_transform
                  (map (\<lambda>(n, col). map label_value col) (map (\<lambda>n. (n, ?g n)) categorical)))
              = processed_columns data pts"
    by (simp add: processed_columns_def o_def categorical_def flag)
  show ?thesis
    unfolding preprocess_def sel and_then_Inr rows fnum fcat fl la cols
    using ne by simp
qed

lemma processed_eq:
  assumes v: "validate_input_data (DataFrame data columns) = Inr True"
    and p: "those (map parse (pickup_cells data)) = Some pts"
    and d: "those (map parse (dropoff_cells data)) = Some dts"
    and ne: "data \<noteq> []"
    and num: "\<forall>r \<in> set data. \<forall>c \<in> set numerical. c \<in> set columns \<longrightarrow> to_float (lookup_cell r c) \<noteq> None"
  shows "processed parse data = Inr (hstack (length data) (processed_columns data pts))"
proof -
  have "map parse (pickup_cells data) = map Some pts"
    using p by (simp only: those_eq_Some_iff)
  then have "length (map parse (pickup_cells data)) = length (map Some pts)" by simp
  then have l: "length pts = length data" by (simp add: pickup_cells_def)
  have lab: "\<forall>r \<in> set data. to_label (lookup_cell r ''store_and_fwd_flag'') \<noteq> None"
    using valid_flag [OF v] by force
  have "derived parse data = Inr (derived_frame data pts)"
    by (simp add: derived_eq v p d derived_frame_def)
  then show ?thesis
    by (simp add: processed_def preprocess_derived_frame [OF l ne num lab])
qed

lemma length_hstack [simp]: "length (hstack n cols) = n"
  by (simp add: hstack_def)

lemma length_processed_columns:
  "length (processed_columns data pts)
     = 22 + length (categories (map (\<lambda>r. label_value (lookup_cell r ''store_and_fwd_flag'')) data))"
  by (simp add: processed_columns_def OneHotEncoder_fit_transform_def numerical_def)

subsection \<open>Inference and the transformers on short columns\<close>

lemma model_predict_accepts:
  "(\<forall>row \<in> set X. length row = n_features_in a) \<Longrightarrow> model_predict a X = Inr (map (predict_row a) X)"
proof -
  assume "\<forall>row \<in> set X. length row = n_features_in a"
  then have "filter (\<lambda>row. length row \<noteq> n_features_in a) X = []"
    by (simp add: filter_empty_conv)
  then show ?thesis by (simp add: model_predict_def)
qed

lemma model_predict_rejects:
  assumes "row \<in> set X" "length row \<noteq> n_features_in a"
  shows "\<exists>w. model_predict a X = Inl (SignatureMismatch (n_features_in a) w) \<and> w \<noteq> n_features_in a"
proof (cases "filter (\<lambda>row. length row \<noteq> n_features_in a) X")
  case Nil
  then show ?thesis using assms by (simp add: filter_empty_conv)
next
  case (Cons r rs)
  then have "r \<in> set (filter (\<lambda>row. length row \<noteq> n_features_in a) X)" by simp
  then have "length r \<noteq> n_features_in a" by simp
  then show ?thesis by (simp add: model_predict_def Cons)
qed

lemma scaler_single [simp]: "StandardScaler_fit_transform [x] = [0]"
  by (simp add: StandardScaler_fit_transform_def scaler_mean_def)

lemma half_over_half_abs: "x \<noteq> 0 \<Longrightarrow> (x / 2) / (\<bar>x\<bar> / 2) = sgn (x::real)"
  by (cases "x < 0") (simp_all add: sgn_real_def)

lemma scaler_pair: "StandardScaler_fit_transform [a, b] = [sgn (a - b), sgn (b - a)]"
proof -
  have m: "scaler_mean [a, b] = (a + b) / 2" by (simp add: scaler_mean_def)
  have "(a - (a + b) / 2)\<^sup>2 + (b - (a + b) / 2)\<^sup>2 = 2 * ((a - b) / 2)\<^sup>2"
    by (simp add: power2_eq_square field_simps)
  then have v: "scaler_var [a, b] = ((a - b) / 2)\<^sup>2"
    by (simp add: scaler_var_def m)
  have s: "scaler_scale [a, b] = (if a = b then 1 else \<bar>a - b\<bar> / 2)"
    by (simp add: scaler_scale_def v real_sqrt_divide)
  have x: "a - (a + b) / 2 = (a - b) / 2" "b - (a + b) / 2 = (b - a) / 2"
    by (simp_all add: field_simps)
  show ?thesis
  proof (cases "a = b")
    case True
    then show ?thesis by (simp add: StandardScaler_fit_transform_def scaler_mean_def)
  next
    case False
    then have ab: "a - b \<noteq> 0" "b - a \<noteq> 0" by simp_all
    have "StandardScaler_fit_transform [a, b]
            = [((a - b) / 2) / (\<bar>a - b\<bar> / 2), ((b - a) / 2) / (\<bar>b - a\<bar> / 2)]"
      unfolding StandardScaler_fit_transform_def list.map m s x
      using False by (simp add: abs_minus_commute)
    then show ?thesis
      unfolding half_over_half_abs [OF ab(1)] half_over_half_abs [OF ab(2)] .
  qed
qed

lemma encoder_single [simp]: "OneHotEncoder_fit_transform [l] = [[1]]"
  by (simp add: OneHotEncoder_fit_transform_def categories_def)

lemma processed_columns_single:
  assumes "length pts = 1"
  shows "processed_columns [r] pts = replicate 22 [0] @ [[1]]"
proof -
  have "StandardScaler_fit_transform (map float_value (derived_column [r] pts n)) = [0]"
    if n: "n \<in> set numerical" for n
  proof -
    have "n \<in> set (map fst (derived_frame [r] pts))"
      using n unfolding map_fst_derived_frame by (auto simp: numerical_def)
    then have "length (derived_column [r] pts n) = length [r]"
      using assms by (intro derived_column_length) simp_all
    then obtain v where "derived_column [r] pts n = [v]"
      by (cases "derived_column [r] pts n") simp_all
    then show ?thesis by simp
  qed
  then have "map (\<lambda>n. StandardScaler_fit_transform (map float_value (derived_column [r] pts n))) numerical
               = map (\<lambda>n. [0]) numerical"
    by simp
  also have "\<dots> = replicate 22 [0]"
    by (simp add: numerical_def eval_nat_numeral)
  finally show ?thesis by (simp add: processed_columns_def)
qed

subsection \<open>The example requests\<close>

lemma processed_single:
  assumes v: "validate_input_data (DataFrame [r] columns) = Inr True"
    and p: "those (map parse (pickup_cells [r])) = Some pts"
    and d: "those (map parse (dropoff_cells [r])) = Some dts"
    and num: "\<forall>c \<in> set numerical. c \<in> set columns \<longrightarrow> to_float (lookup_cell r c) \<noteq> None"
  shows "processed parse [r] = Inr [replicate 22 0 @ [1]]"
proof -
  have "map parse (pickup_cells [r]) = map Some pts"
    using p by (simp only: those_eq_Some_iff)
  then have "length (map parse (pickup_cells [r])) = length (map Some pts)" by simp
  then have l: "length pts = 1" by (simp add: pickup_cells_def)
  have "processed parse [r] = Inr (hstack (length [r]) (processed_columns [r] pts))"
    by (rule processed_eq [OF v p d]) (use num in simp_all)
  then show ?thesis
    by (simp add: processed_columns_single [OF l] hstack_def)
qed

lemma example_pickup_parsed:
  "parse_cell (CStr ''2024-03-11 14:05:09'') = Some example_pickup"
  by (simp add: example_pickup_def parse_iso_def field_at_def digit_of_def days_in_month_def
      is_leap_def)

lemma example_dropoff_parsed:
  "parse_cell (CStr ''2024-03-11 14:25:00'') = Some example_dropoff"
  by (simp add: example_dropoff_def parse_iso_def field_at_def digit_of_def days_in_month_def
      is_leap_def)

lemma example_record_timestamps:
  "lookup_cell example_record ''lpep_pickup_datetime'' = CStr ''2024-03-11 14:05:09''"
  "lookup_cell example_record ''lpep_dropoff_datetime'' = CStr ''2024-03-11 14:25:00''"
  by (simp_all add: lookup_cell_def example_record_def)

lemma example_record_numeric:
  "\<forall>c \<in> set numerical. c \<in> set columns \<longrightarrow> to_float (lookup_cell example_record c) \<noteq> None"
  by (simp add: numerical_def columns_def lookup_cell_def example_record_def del: not_None_eq)

lemma example_record_processed:
  "processed parse_cell [example_record] = Inr [replicate 22 0 @ [1]]"
  by (rule processed_single [OF example_record_valid _ _ example_record_numeric,
        of _ "[example_pickup]" "[example_dropoff]"])
     (simp_all only: pickup_cells_def dropoff_cells_def list.map example_record_timestamps
        example_pickup_parsed example_dropoff_parsed those.simps option.case option.map)

lemma n_features_in_examples:
  "n_features_in artifact_N = 23" "n_features_in artifact_NY = 24"
  by (simp_all add: n_features_in_def artifact_N_def artifact_NY_def numerical_def)




lemma flag_Y_record_valid:
  "validate_input_data (DataFrame [flag_Y_record] columns) = Inr True"
  by (simp add: validate_input_data_eq suite_def columns_def DataFrame_def lookup_cell_def
      flag_Y_record_def with_field_def example_record_def)

lemma flag_Y_record_cells:
  "lookup_cell flag_Y_record ''lpep_pickup_datetime'' = CStr ''2024-03-11 14:05:09''"
  "lookup_cell flag_Y_record ''lpep_dropoff_datetime'' = CStr ''2024-03-11 14:25:00''"
  "lookup_cell flag_Y_record ''store_and_fwd_flag'' = CStr ''Y''"
  by (simp_all add: lookup_cell_def flag_Y_record_def with_field_def example_record_def)

lemma flag_Y_record_numeric:
  "\<forall>c \<in> set numerical. c \<in> set columns \<longrightarrow> to_float (lookup_cell flag_Y_record c) \<noteq> None"
  by (simp add: numerical_def columns_def lookup_cell_def flag_Y_record_def with_field_def
      example_record_def del: not_None_eq)

lemma flag_Y_record_parsed:
  "those (map parse_cell (pickup_cells [flag_Y_record])) = Some [example_pickup]"
  "those (map parse_cell (dropoff_cells [flag_Y_record])) = Some [example_dropoff]"
  by (simp_all only: pickup_cells_def dropoff_cells_def list.map flag_Y_record_cells
        example_pickup_parsed example_dropoff_parsed those.simps option.case option.map)

lemma feature_names_out_derived_frame:
  "feature_names_out (derived_frame data pts)
     = numerical @ map (\<lambda>c. ''store_and_fwd_flag_'' @ c)
         (categories (map (\<lambda>r. case lookup_cell r ''store_and_fwd_flag'' of CStr s \<Rightarrow> s | _ \<Rightarrow> []) data))"
  by (simp add: feature_names_out_def categorical_def map_of_derived_frame columns_def dropped_def
      o_def)

lemma other_pickup_parsed:
  "parse_cell (CStr ''2023-12-31 23:59:58'') = Some other_pickup"
  by (simp add: other_pickup_def parse_iso_def field_at_def digit_of_def days_in_month_def
      is_leap_def)

lemma other_dropoff_parsed:
  "parse_cell (CStr ''2024-01-01 00:40:00'') = Some other_dropoff"
  by (simp add: other_dropoff_def parse_iso_def field_at_def digit_of_def days_in_month_def
      is_leap_def)

lemma other_record_cells:
  "lookup_cell other_record ''lpep_pickup_datetime'' = CStr ''2023-12-31 23:59:58''"
  "lookup_cell other_record ''lpep_dropoff_datetime'' = CStr ''2024-01-01 00:40:00''"
  "lookup_cell other_record ''store_and_fwd_flag'' = CStr ''Y''"
  by (simp_all add: lookup_cell_def other_record_def)

lemma other_record_valid:
  "validate_input_data (DataFrame [other_record] columns) = Inr True"
  by (simp add: validate_input_data_eq suite_def columns_def DataFrame_def lookup_cell_def
      other_record_def)

lemma pair_valid:
  "validate_input_data (DataFrame [example_record, other_record] columns) = Inr True"
  by (simp add: validate_input_data_eq suite_def columns_def DataFrame_def lookup_cell_def
      example_record_def other_record_def)

lemma other_record_numeric:
  "\<forall>c \<in> set numerical. c \<in> set columns \<longrightarrow> to_float (lookup_cell other_record c) \<noteq> None"
  by (simp add: numerical_def columns_def lookup_cell_def other_record_def del: not_None_eq)

lemma other_record_parsed:
  "those (map parse_cell (pickup_cells [other_record])) = Some [other_pickup]"
  "those (map parse_cell (dropoff_cells [other_record])) = Some [other_dropoff]"
  by (simp_all only: pickup_cells_def dropoff_cells_def list.map other_record_cells
        other_pickup_parsed other_dropoff_parsed those.simps option.case option.map)

lemma pair_parsed:
  "those (map parse_cell (pickup_cells [example_record, other_record]))
     = Some [example_pickup, other_pickup]"
  "those (map parse_cell (dropoff_cells [example_record, other_record]))
     = Some [example_dropoff, other_dropoff]"
  by (simp_all only: pickup_cells_def dropoff_cells_def list.map other_record_cells
        example_record_timestamps example_pickup_parsed example_dropoff_parsed
        other_pickup_parsed other_dropoff_parsed those.simps option.case option.map)

lemma other_record_processed:
  "processed parse_cell [other_record] = Inr [replicate 22 0 @ [1]]"
  by (rule processed_single [OF other_record_valid other_record_parsed other_record_numeric])

lemma pair_processed_columns:
  "processed parse_cell [example_record, other_record]
     = Inr (hstack 2 (processed_columns [example_record, other_record] [example_pickup, other_pickup]))"
proof -
  have "processed parse_cell [example_record, other_record]
     = Inr (hstack (length [example_record, other_record])
              (processed_columns [example_record, other_record] [example_pickup, other_pickup]))"
    by (rule processed_eq [OF pair_valid pair_parsed])
       (use example_record_numeric other_record_numeric in simp_all)
  then show ?thesis by (simp add: numeral_2_eq_2)
qed

lemma example_record_flag: "lookup_cell example_record ''store_and_fwd_flag'' = CStr ''N''"
  by (simp add: lookup_cell_def example_record_def)

lemma pair_categories:
  "categories [label_value (lookup_cell example_record ''store_and_fwd_flag''),
               label_value (lookup_cell other_record ''store_and_fwd_flag'')]
     = [''N'', ''Y'']"
  by (simp add: categories_def label_value_def other_record_cells example_record_flag)

lemma map_length_hstack: "map length (hstack n cols) = replicate n (length cols)"
  by (simp add: hstack_def o_def map_replicate_const)

lemma pair_columns:
  "processed_columns [example_record, other_record] [example_pickup, other_pickup]
     = [[-1, 1], [1, -1], [-1, 1], [-1, 1], [-1, 1], [-1, 1], [-1, 1], [-1, 1], [-1, 1],
        [-1, 1], [-1, 1], [-1, 1], [-1, 1], [-1, 1], [-1, 1],
        [1, -1], [-1, 1], [-1, 1], [-1, 1], [-1, 1], [-1, 1], [-1, 1],
        [1, 0], [0, 1]]"
proof -
  have num: "map (\<lambda>n. StandardScaler_fit_transform
                      (map float_value
                         (derived_column [example_record, other_record]
                            [example_pickup, other_pickup] n))) numerical
     = [[-1, 1], [1, -1], [-1, 1], [-1, 1], [-1, 1], [-1, 1], [-1, 1], [-1, 1], [-1, 1],
        [-1, 1], [-1, 1], [-1, 1], [-1, 1], [-1, 1], [-1, 1],
        [1, -1], [-1, 1], [-1, 1], [-1, 1], [-1, 1], [-1, 1], [-1, 1]]"
    by (simp add: numerical_def derived_column_def map_of_derived_frame columns_def dropped_def
        new_columns_def lookup_cell_def example_record_def other_record_def float_value_def
        scaler_pair example_pickup_def other_pickup_def dayofweek_def sakamoto_arr_def)
  have cat: "OneHotEncoder_fit_transform
               (map (\<lambda>r. label_value (lookup_cell r ''store_and_fwd_flag''))
                  [example_record, other_record])
             = [[1, 0], [0, 1]]"
    by (simp add: OneHotEncoder_fit_transform_def pair_categories)
       (simp add: label_value_def other_record_cells example_record_flag)
  show ?thesis
    unfolding processed_columns_def num cat by simp
qed

lemma pair_processed:
  "processed parse_cell [example_record, other_record]
     = Inr [[-1, 1, -1, -1, -1, -1, -1, -1, -1, -1, -1, -1, -1, -1, -1,
             1, -1, -1, -1, -1, -1, -1, 1, 0],
            [1, -1, 1, 1, 1, 1, 1, 1, 1, 1, 1, 1, 1, 1, 1,
             -1, 1, 1, 1, 1, 1, 1, 0, 1]]"
  by (simp add: pair_processed_columns pair_columns hstack_def numeral_2_eq_2)

section \<open>Validation reports every failed expectation\<close>

text \<open>
  C5. The validation gate evaluates every expectation of the suite (the null check of each
  schema column, the value set of the flag, the ordered column list): the result is success
  exactly when all of them hold, and otherwise one error that carries the number and the
  list of all failed expectations, each failing check of the three kinds among them. A
  request whose frame fails validation ends with that error: no later stage runs.
\<close>

theorem validate_input_data_reports_all:
  "validate_input_data df =
     (if list_all (expectation_success df) suite then Inr True
      else Inl (ValidationFailed
                 (length (filter (\<lambda>e. \<not> expectation_success df e) suite))
                 (filter (\<lambda>e. \<not> expectation_success df e) suite)))
   \<and> (\<forall>c \<in> set columns. \<not> expectation_success df (ExpectColumnValuesToNotBeNull c) \<longrightarrow>
         ExpectColumnValuesToNotBeNull c \<in> set (filter (\<lambda>e. \<not> expectation_success df e) suite))
   \<and> (\<not> expectation_success df (ExpectColumnValuesToBeInSet ''store_and_fwd_flag'' [''Y'', ''N'']) \<longrightarrow>
         ExpectColumnValuesToBeInSet ''store_and_fwd_flag'' [''Y'', ''N'']
           \<in> set (filter (\<lambda>e. \<not> expectation_success df e) suite))
   \<and> (\<not> expectation_success df (ExpectTableColumnsToMatchOrderedList columns) \<longrightarrow>
         ExpectTableColumnsToMatchOrderedList columns
           \<in> set (filter (\<lambda>e. \<not> expectation_success df e) suite))
   \<and> (\<forall>parse model data err.
         validate_input_data (DataFrame data columns) = Inl err \<longrightarrow>
         predict parse model data = Inl err)"
proof -
  have eq: "validate_input_data df =
     (if list_all (expectation_success df) suite then Inr True
      else Inl (ValidationFailed
                 (length (filter (\<lambda>e. \<not> expectation_success df e) suite))
                 (filter (\<lambda>e. \<not> expectation_success df e) suite)))"
    by (simp add: validate_input_data_eq filter_empty_conv list_all_iff)
  have nulls: "ExpectColumnValuesToNotBeNull c \<in> set suite" if "c \<in> set columns" for c
    using that by (simp add: suite_def)
  have flag: "ExpectColumnValuesToBeInSet ''store_and_fwd_flag'' [''Y'', ''N''] \<in> set suite"
    by (simp add: suite_def)
  have order: "ExpectTableColumnsToMatchOrderedList columns \<in> set suite"
    by (simp add: suite_def)
  show ?thesis
    using eq nulls flag order predict_validation_error by simp
qed

theorem validate_input_data_reports_all_witness:
  "validate_input_data (rev (DataFrame [invalid_record] columns))
     = Inl (ValidationFailed 3
              [ExpectColumnValuesToNotBeNull ''VendorID'',
               ExpectColumnValuesToBeInSet ''store_and_fwd_flag'' [''Y'', ''N''],
               ExpectTableColumnsToMatchOrderedList columns])
   \<and> validate_input_data (DataFrame [invalid_record] columns)
     = Inl (ValidationFailed 2
              [ExpectColumnValuesToNotBeNull ''VendorID'',
               ExpectColumnValuesToBeInSet ''store_and_fwd_flag'' [''Y'', ''N'']])
   \<and> predict parse_cell artifact_N [invalid_record]
     = Inl (ValidationFailed 2
              [ExpectColumnValuesToNotBeNull ''VendorID'',
               ExpectColumnValuesToBeInSet ''store_and_fwd_flag'' [''Y'', ''N'']])"
proof -
  let ?df = "rev (DataFrame [invalid_record] columns)"
  let ?df' = "DataFrame [invalid_record] columns"
  have f: "filter (\<lambda>e. \<not> expectation_success ?df e) suite
             = [ExpectColumnValuesToNotBeNull ''VendorID'',
                ExpectColumnValuesToBeInSet ''store_and_fwd_flag'' [''Y'', ''N''],
                ExpectTableColumnsToMatchOrderedList columns]"
    by (simp add: suite_def columns_def DataFrame_def lookup_cell_def invalid_record_def
        with_field_def example_record_def)
  have f': "filter (\<lambda>e. \<not> expectation_success ?df' e) suite
             = [ExpectColumnValuesToNotBeNull ''VendorID'',
                ExpectColumnValuesToBeInSet ''store_and_fwd_flag'' [''Y'', ''N'']]"
    by (simp add: suite_def columns_def DataFrame_def lookup_cell_def invalid_record_def
        with_field_def example_record_def)
  have a: "\<not> list_all (expectation_success ?df) suite"
    unfolding list_all_filter_empty f by simp
  have a': "\<not> list_all (expectation_success ?df') suite"
    unfolding list_all_filter_empty f' by simp
  have v: "validate_input_data ?df
     = Inl (ValidationFailed 3
              [ExpectColumnValuesToNotBeNull ''VendorID'',
               ExpectColumnValuesToBeInSet ''store_and_fwd_flag'' [''Y'', ''N''],
               ExpectTableColumnsToMatchOrderedList columns])"
    using validate_input_data_reports_all [of ?df] a unfolding f by simp
  have v': "validate_input_data ?df'
     = Inl (ValidationFailed 2
              [ExpectColumnValuesToNotBeNull ''VendorID'',
               ExpectColumnValuesToBeInSet ''store_and_fwd_flag'' [''Y'', ''N'']])"
    using validate_input_data_reports_all [of ?df'] a' unfolding f' by simp
  have "predict parse_cell artifact_N [invalid_record]
     = Inl (ValidationFailed 2
              [ExpectColumnValuesToNotBeNull ''VendorID'',
               ExpectColumnValuesToBeInSet ''store_and_fwd_flag'' [''Y'', ''N'']])"
    using validate_input_data_reports_all [of ?df'] v' by blast
  with v v' show ?thesis by blast
qed

section \<open>The request is rebuilt against the schema\<close>

text \<open>
  C10. Before validation the records of a request are rebuilt against the fixed column
  list: the frame's columns are the schema's, in the schema's order; a cell is the record's
  value under that name, or null when the record has no such key; keys outside the schema
  are discarded and change nothing in the outcome; records with the same key-value mapping
  in another key order give the same frame. So the ordered-column expectation always
  holds on a request, and a schema key that a record lacks makes validation fail with the
  null expectation of that column among the failures and without the ordered-column
  expectation among them.
\<close>

theorem DataFrame_rebuilt_against_schema:
  "map fst (DataFrame data columns) = columns
   \<and> (\<forall>c \<in> set columns.
         map_of (DataFrame data columns) c
           = Some (map (\<lambda>r. case map_of r c of None \<Rightarrow> CNull | Some v \<Rightarrow> v) data))
   \<and> DataFrame (map (filter (\<lambda>(k, v). k \<in> set columns)) data) columns = DataFrame data columns
   \<and> predict parse model (map (filter (\<lambda>(k, v). k \<in> set columns)) data) = predict parse model data
   \<and> (list_all2 (\<lambda>r r'. map_of r' = map_of r) data data' \<longrightarrow>
         DataFrame data' columns = DataFrame data columns)
   \<and> expectation_success (DataFrame data columns) (ExpectTableColumnsToMatchOrderedList columns)
   \<and> (\<forall>c \<in> set columns. (\<exists>r \<in> set data. map_of r c = None) \<longrightarrow>
         (\<exists>n fs. validate_input_data (DataFrame data columns) = Inl (ValidationFailed n fs)
                 \<and> ExpectColumnValuesToNotBeNull c \<in> set fs
                 \<and> ExpectTableColumnsToMatchOrderedList columns \<notin> set fs))"
proof -
  have cells: "\<forall>c \<in> set columns.
         map_of (DataFrame data columns) c
           = Some (map (\<lambda>r. case map_of r c of None \<Rightarrow> CNull | Some v \<Rightarrow> v) data)"
    by (simp add: map_of_DataFrame lookup_cell_def)
  have extra: "DataFrame (map (filter (\<lambda>(k, v). k \<in> set columns)) data) columns = DataFrame data columns"
    by (rule DataFrame_filter_keys)
  have pred: "predict parse model (map (filter (\<lambda>(k, v). k \<in> set columns)) data) = predict parse model data"
    by (simp add: predict_def extra)
  have missing: "\<exists>n fs. validate_input_data (DataFrame data columns) = Inl (ValidationFailed n fs)
                 \<and> ExpectColumnValuesToNotBeNull c \<in> set fs
                 \<and> ExpectTableColumnsToMatchOrderedList columns \<notin> set fs"
    if c: "c \<in> set columns" and r: "r \<in> set data" "map_of r c = None" for c r
  proof -
    let ?fs = "filter (\<lambda>e. \<not> expectation_success (DataFrame data columns) e) suite"
    have f: "\<not> expectation_success (DataFrame data columns) (ExpectColumnValuesToNotBeNull c)"
      using missing_key_null [OF c r] .
    have "ExpectColumnValuesToNotBeNull c \<in> set suite" using c by (simp add: suite_def)
    with f have mem: "ExpectColumnValuesToNotBeNull c \<in> set ?fs"
      by (simp del: expectation_success.simps)
    then have "?fs \<noteq> []" by (metis empty_iff list.set(1))
    then have "validate_input_data (DataFrame data columns) = Inl (ValidationFailed (length ?fs) ?fs)"
      by (simp add: validate_input_data_eq)
    moreover have "ExpectTableColumnsToMatchOrderedList columns \<notin> set ?fs" by simp
    ultimately show ?thesis using mem by blast
  qed
  show ?thesis
    using cells extra pred missing DataFrame_same_mappings [of data data' columns] by auto
qed

theorem DataFrame_rebuilt_against_schema_witness:
  "''VendorID'' \<in> set columns
   \<and> map_of incomplete_record ''VendorID'' = None
   \<and> map_of incomplete_record ''comment'' = Some (CStr ''airport run'')
   \<and> list_all2 (\<lambda>r r'. map_of r' = map_of r) [incomplete_record] [rev incomplete_record]
   \<and> DataFrame [rev incomplete_record] columns = DataFrame [incomplete_record] columns
   \<and> predict parse_cell artifact_N [example_record]
       = predict parse_cell artifact_N [(''comment'', CStr ''airport run'') # example_record]
   \<and> (\<exists>n fs. validate_input_data (DataFrame [incomplete_record] columns) = Inl (ValidationFailed n fs)
             \<and> ExpectColumnValuesToNotBeNull ''VendorID'' \<in> set fs
             \<and> ExpectTableColumnsToMatchOrderedList columns \<notin> set fs)"
proof -
  have c: "''VendorID'' \<in> set columns" by (simp add: columns_def)
  have m: "map_of incomplete_record ''VendorID'' = None"
    by (simp add: incomplete_record_def example_record_def)
  have k: "map_of incomplete_record ''comment'' = Some (CStr ''airport run'')"
    by (simp add: incomplete_record_def)
  have "distinct (map fst incomplete_record)"
    by (simp add: incomplete_record_def example_record_def)
  then have l: "list_all2 (\<lambda>r r'. map_of r' = map_of r) [incomplete_record] [rev incomplete_record]"
    by (simp add: map_of_rev_distinct)
  have x: "map (filter (\<lambda>(k, v). k \<in> set columns)) [(''comment'', CStr ''airport run'') # example_record]
             = [example_record]"
    by (simp add: columns_def example_record_def)
  note t = DataFrame_rebuilt_against_schema
             [of "[incomplete_record]" parse_cell artifact_N "[rev incomplete_record]"]
  note t' = DataFrame_rebuilt_against_schema
             [of "[(''comment'', CStr ''airport run'') # example_record]" parse_cell artifact_N "[]"]
  have e: "DataFrame [rev incomplete_record] columns = DataFrame [incomplete_record] columns"
    using t l by blast
  have v: "\<exists>n fs. validate_input_data (DataFrame [incomplete_record] columns) = Inl (ValidationFailed n fs)
             \<and> ExpectColumnValuesToNotBeNull ''VendorID'' \<in> set fs
             \<and> ExpectTableColumnsToMatchOrderedList columns \<notin> set fs"
    using t c m by (meson list.set_intros(1))
  have p: "predict parse_cell artifact_N [example_record]
       = predict parse_cell artifact_N [(''comment'', CStr ''airport run'') # example_record]"
    using t' unfolding x by blast
  from c m k l e v p show ?thesis by blast
qed


section \<open>Feature extraction\<close>





section \<open>Column order\<close>




section \<open>Unparseable timestamps\<close>




section \<open>One estimate per row\<close>




section \<open>The model's input signature\<close>

text \<open>
  C4 (amended). The handler itself compares nothing: the processed matrix goes to the
  model as it is. When some row of the processed matrix has another width than the one the
  artifact was trained on, the request ends with the artifact's signature-mismatch error
  and no prediction; when every row has the trained width, the model is applied to the
  rows unchanged, with no truncation and no padding. A matrix of the trained width whose
  columns mean something else than at training time is not detected.
\<close>

theorem width_mismatch_rejected:
  "(processed parse data = Inr X \<and> (\<exists>row \<in> set X. length row \<noteq> n_features_in model) \<longrightarrow>
      (\<exists>w. predict parse model data = Inl (SignatureMismatch (n_features_in model) w)
           \<and> w \<noteq> n_features_in model))
   \<and> (processed parse data = Inr X \<and> (\<forall>row \<in> set X. length row = n_features_in model) \<longrightarrow>
      predict parse model data = Inr (map (predict_row model) X))"
proof -
  have a: "\<exists>w. predict parse model data = Inl (SignatureMismatch (n_features_in model) w)
           \<and> w \<noteq> n_features_in model"
    if "processed parse data = Inr X" "row \<in> set X" "length row \<noteq> n_features_in model" for row
    using model_predict_rejects [OF that(2,3)] that(1) by (simp add: predict_eq_processed)
  have b: "predict parse model data = Inr (map (predict_row model) X)"
    if "processed parse data = Inr X" "\<forall>row \<in> set X. length row = n_features_in model"
    using model_predict_accepts [OF that(2)] that(1) by (simp add: predict_eq_processed)
  from a b show ?thesis by blast
qed

theorem width_mismatch_rejected_witness:
  "processed parse_cell [example_record] = Inr [replicate 22 0 @ [1]]
   \<and> n_features_in artifact_NY = 24
   \<and> predict parse_cell artifact_NY [example_record] = Inl (SignatureMismatch 24 23)
   \<and> n_features_in artifact_N = 23
   \<and> predict parse_cell artifact_N [example_record] = Inr [predict_row artifact_N (replicate 22 0 @ [1])]"
proof -
  note t1 = width_mismatch_rejected [of parse_cell "[example_record]" "[replicate 22 0 @ [1]]" artifact_NY]
  note t2 = width_mismatch_rejected [of parse_cell "[example_record]" "[replicate 22 0 @ [1]]" artifact_N]
  have m: "\<exists>row \<in> set [replicate 22 0 @ [1::real]]. length row \<noteq> n_features_in artifact_NY"
    by (simp add: n_features_in_examples)
  have k: "\<forall>row \<in> set [replicate 22 0 @ [1::real]]. length row = n_features_in artifact_N"
    by (simp add: n_features_in_examples)
  from t1 example_record_processed m obtain w where
    w: "predict parse_cell artifact_NY [example_record]
          = Inl (SignatureMismatch (n_features_in artifact_NY) w)"
    by blast
  have "predict parse_cell artifact_NY [example_record]
          = model_predict artifact_NY [replicate 22 0 @ [1]]"
    by (simp add: predict_eq_processed example_record_processed)
  also have "\<dots> = Inl (SignatureMismatch 24 23)"
    by (simp add: model_predict_def n_features_in_examples)
  finally have p1: "predict parse_cell artifact_NY [example_record] = Inl (SignatureMismatch 24 23)" .
  with w have "w = 23" by (simp add: n_features_in_examples)
  have p2: "predict parse_cell artifact_N [example_record]
              = Inr (map (predict_row artifact_N) [replicate 22 0 @ [1]])"
    using t2 example_record_processed k by blast
  from p1 p2 example_record_processed n_features_in_examples show ?thesis by simp
qed

text \<open>
  C4 as stated fails for the column order: an artifact trained on the layout that ends with
  the indicator of flag \<^verbatim>\<open>N\<close> receives, for a request whose only flag value is \<^verbatim>\<open>Y\<close>, a
  matrix of the same width whose last column is the indicator of \<^verbatim>\<open>Y\<close>, and answers.
\<close>

theorem same_width_other_layout_accepted:
  "derived parse_cell [flag_Y_record] = Inr (derived_frame [flag_Y_record] [example_pickup])
   \<and> feature_names_out (derived_frame [flag_Y_record] [example_pickup])
       = numerical @ [''store_and_fwd_flag_Y'']
   \<and> feature_names_in artifact_N = numerical @ [''store_and_fwd_flag_N'']
   \<and> predict parse_cell artifact_N [flag_Y_record] = Inr [1]"
proof -
  have d: "derived parse_cell [flag_Y_record] = Inr (derived_frame [flag_Y_record] [example_pickup])"
    by (simp add: derived_eq flag_Y_record_valid flag_Y_record_parsed derived_frame_def)
  have f: "feature_names_out (derived_frame [flag_Y_record] [example_pickup])
       = numerical @ [''store_and_fwd_flag_Y'']"
    by (simp add: feature_names_out_derived_frame flag_Y_record_cells categories_def)
  have a: "feature_names_in artifact_N = numerical @ [''store_and_fwd_flag_N'']"
    by (simp add: artifact_N_def)
  have X: "processed parse_cell [flag_Y_record] = Inr [replicate 22 0 @ [1]]"
    by (rule processed_single [OF flag_Y_record_valid flag_Y_record_parsed flag_Y_record_numeric])
  have "predict parse_cell artifact_N [flag_Y_record] = model_predict artifact_N [replicate 22 0 @ [1]]"
    by (simp add: predict_eq_processed X)
  also have "\<dots> = Inr [1]"
    by (simp add: model_predict_def n_features_in_def artifact_N_def numerical_def
        sum_list_replicate)
  finally have "predict parse_cell artifact_N [flag_Y_record] = Inr [1]" .
  with d f a show ?thesis by simp
qed

section \<open>The transformers are fitted on each request\<close>

text \<open>
  C2 (the code at the failing inputs). The processed matrix keeps the row count, but its
  column count follows the flag values that occur in the batch: a batch with one flag
  value gives 23 columns, a batch with both values gives 24.
\<close>

theorem column_count_depends_on_batch:
  "map_sum id (map length) (processed parse_cell [example_record]) = Inr [23]
   \<and> map_sum id (map length) (processed parse_cell [other_record]) = Inr [23]
   \<and> map_sum id (map length) (processed parse_cell [example_record, other_record]) = Inr [24, 24]"
  by (simp add: example_record_processed other_record_processed pair_processed_columns
      map_length_hstack length_processed_columns pair_categories eval_nat_numeral)

text \<open>
  C1 (the code at the failing inputs). The scaler and the encoder are fitted on the batch
  of the request. Two single-record requests with different values in every numerical
  field give the same processed row, all zeros and one indicator, and so the same
  prediction; the same two records sent as one batch of two are each scaled to plus or
  minus one. No mean and scale fixed at training time give these values.
\<close>

theorem scaler_fitted_on_request:
  "processed parse_cell [example_record] = Inr [replicate 22 0 @ [1]]
   \<and> processed parse_cell [other_record] = Inr [replicate 22 0 @ [1]]
   \<and> processed parse_cell [example_record, other_record]
       = Inr [[-1, 1, -1, -1, -1, -1, -1, -1, -1, -1, -1, -1, -1, -1, -1,
               1, -1, -1, -1, -1, -1, -1, 1, 0],
              [1, -1, 1, 1, 1, 1, 1, 1, 1, 1, 1, 1, 1, 1, 1,
               -1, 1, 1, 1, 1, 1, 1, 0, 1]]
   \<and> predict parse_cell artifact_N [example_record] = Inr [1]
   \<and> predict parse_cell artifact_N [other_record] = Inr [1]"
  by (simp add: example_record_processed other_record_processed pair_processed
      predict_eq_processed model_predict_def n_features_in_def artifact_N_def numerical_def
      sum_list_replicate)

end
